theory Spec2Isabelle
  imports Main "HOL-Library.Char_ord"
begin

section \<open>Filename sanitization (main.go, lines 229-233)\<close>

text \<open>
  A Go string is a sequence of bytes, here a \<^typ>\<open>string\<close> (a list of 8-bit characters).
  The pattern of \<open>re\<close> is \<open>[^a-zA-Z0-9._-]+\<close>: a non-empty run of characters outside the
  class. Every byte of a multi-byte UTF-8 sequence and every invalid byte is at least 128, so
  it lies outside the class and the runs of the pattern over runes are exactly its runs over
  bytes. \<open>allowed\<close> is the class itself.
\<close>

definition allowed :: "char \<Rightarrow> bool" where
  "allowed c \<longleftrightarrow>
     (CHR ''a'' \<le> c \<and> c \<le> CHR ''z'') \<or> (CHR ''A'' \<le> c \<and> c \<le> CHR ''Z'') \<or>
     (CHR ''0'' \<le> c \<and> c \<le> CHR ''9'') \<or> c = CHR ''.'' \<or> c = CHR ''_'' \<or> c = CHR ''-''"

text \<open>
  \<open>re.ReplaceAllString(in, repl)\<close> for a replacement without \<open>$\<close>: the text is scanned from
  the left; an allowed character is copied; at a character outside the class the leftmost
  match begins, it is greedy and so takes every following character outside the class, and
  the whole match is replaced by \<open>repl\<close>.
\<close>

function ReplaceAllString :: "string \<Rightarrow> string \<Rightarrow> string" where
  "ReplaceAllString [] repl = []"
| "ReplaceAllString (c # cs) repl =
     (if allowed c then c # ReplaceAllString cs repl
      else repl @ ReplaceAllString (dropWhile (\<lambda>x. \<not> allowed x) cs) repl)"
  by pat_completeness auto
termination
  by (relation "measure (\<lambda>(s, repl). length s)") (auto simp: less_Suc_eq_le length_dropWhile_le)

definition cleanFilename :: "string \<Rightarrow> string" where
  "cleanFilename s = ReplaceAllString s ''_''"

subsection \<open>The sanitization as the specification words it\<close>

text \<open>
  \<open>runs s\<close> cuts \<open>s\<close> into its maximal runs of characters that are all inside or all
  outside the class. \<open>collapse\<close> keeps a run of allowed characters and turns a run of
  characters outside the class into one underscore.
\<close>

function runs :: "string \<Rightarrow> string list" where
  "runs [] = []"
| "runs (c # cs) =
     (c # takeWhile (\<lambda>x. allowed x = allowed c) cs) # runs (dropWhile (\<lambda>x. allowed x = allowed c) cs)"
  by pat_completeness auto
termination
  by (relation "measure length") (auto simp: less_Suc_eq_le length_dropWhile_le)

definition collapse :: "string \<Rightarrow> string" where
  "collapse r = (if allowed (hd r) then r else ''_'')"

definition sanitize_spec :: "string \<Rightarrow> string" where
  "sanitize_spec s = concat (map collapse (runs s))"

section \<open>The world the program runs in\<close>

text \<open>
  The program is a sequence of calls to the operating system, to the OAuth2 and Drive
  libraries and to the logger. The model threads a \<open>world\<close> through these calls: the local
  filesystem and the trace of every call made so far. What the libraries and the remote
  service answer is fixed by an environment \<open>env\<close> that the program cannot change.
\<close>

type_synonym time = int

datatype errno = ENOENT | EACCES | EISDIR | ENOTDIR | ENOSPC | EPERM | EIO

text \<open>Go's \<open>error\<close> values: an \<open>*os.PathError\<close> (operation, path, cause) or a plain message.\<close>

datatype error = PathError string string errno | ErrorString string

fun strerror :: "errno \<Rightarrow> string" where
  "strerror ENOENT = ''no such file or directory''"
| "strerror EACCES = ''permission denied''"
| "strerror EISDIR = ''is a directory''"
| "strerror ENOTDIR = ''not a directory''"
| "strerror ENOSPC = ''no space left on device''"
| "strerror EPERM = ''operation not permitted''"
| "strerror EIO = ''input/output error''"

fun Error :: "error \<Rightarrow> string" where
  "Error (PathError op path e) = op @ '' '' @ path @ '': '' @ strerror e"
| "Error (ErrorString s) = s"

text \<open>\<open>os.IsNotExist(err)\<close>: false for \<open>nil\<close> and for every cause other than \<open>ENOENT\<close>.\<close>

fun os_IsNotExist :: "error option \<Rightarrow> bool" where
  "os_IsNotExist (Some (PathError op path e)) = (e = ENOENT)"
| "os_IsNotExist (Some (ErrorString s)) = False"
| "os_IsNotExist None = False"

text \<open>
  A path resolves to a directory, to a file with content, access time and modification time,
  or fails with an error number (\<open>ENOENT\<close> when nothing is there). Paths are compared as
  strings.
\<close>

datatype node = Dir | File string time time

datatype FileInfo = FileInfo (IsDir: bool)

text \<open>The fields of \<open>drive.File\<close> that the program reads.\<close>

record drive_File =
  FileId :: string
  Name :: string
  CreatedTime :: string
  ModifiedTime :: string

text \<open>
  The parameters of a \<open>Files.List\<close> call. The program never sets a page token, which is
  \<open>None\<close> in every call it builds.
\<close>

record list_call =
  Q :: string
  PageSize :: nat
  OrderBy :: "string option"
  Fields :: string
  PageToken :: "string option"

text \<open>
  The body of a download response: the bytes it delivers before it ends, and the read error
  that ends it when it does not end cleanly.
\<close>

datatype Body = Body string "error option"

datatype syscall = SysMkdirAllCall | SysReadCall | SysOpenCall | SysCreateCall | SysChtimesCall

datatype event =
    Stdout string
  | LogLine string
  | SysMkdirAll string
  | SysReadFile string
  | SysOpen string
  | SysOpenFile string
  | SysStat string
  | SysCreate string
  | SysWrite string string
  | SysChtimes string time time
  | StdinScan
  | OAuthExchange string
  | DriveList list_call
  | DriveDownload string

record env =
  fault :: "syscall \<Rightarrow> string \<Rightarrow> errno option"
  write_limit :: "string \<Rightarrow> nat option"
  now :: time
  ConfigFromJSON :: "string \<Rightarrow> error + string"
  AuthCodeURL :: "string \<Rightarrow> string"
  decode_token :: "string \<Rightarrow> error + string"
  encode_token :: "string \<Rightarrow> string"
  Scan :: "error + string"
  Exchange :: "string \<Rightarrow> string \<Rightarrow> error + string"
  drive_New :: "error option"
  Files_List :: "list_call \<Rightarrow> error + drive_File list"
  Files_Get_Download :: "string \<Rightarrow> error + Body"
  time_Parse :: "string \<Rightarrow> string \<Rightarrow> error + time"

record world =
  fs :: "string \<Rightarrow> errno + node"
  trace :: "event list"

text \<open>
  A call returns normally with a value, ends the process with an exit status
  (\<open>log.Fatalf\<close> exits with 1), or panics.
\<close>

datatype 'a res = Ret 'a world | Exit nat world | Panic string world

fun world_of :: "'a res \<Rightarrow> world" where
  "world_of (Ret x w) = w"
| "world_of (Exit c w) = w"
| "world_of (Panic m w) = w"

text \<open>The exit status of the process; a Go program that panics exits with 2.\<close>

fun exit_status :: "'a res \<Rightarrow> nat" where
  "exit_status (Ret x w) = 0"
| "exit_status (Exit c w) = c"
| "exit_status (Panic m w) = 2"

definition bind :: "'a res \<Rightarrow> ('a \<Rightarrow> world \<Rightarrow> 'b res) \<Rightarrow> 'b res" where
  "bind m k = (case m of Ret x w \<Rightarrow> k x w | Exit c w \<Rightarrow> Exit c w | Panic s w \<Rightarrow> Panic s w)"

definition emit :: "event \<Rightarrow> world \<Rightarrow> world" where
  "emit e w = w\<lparr>trace := trace w @ [e]\<rparr>"

text \<open>\<open>Println\<close> writes its operands separated by single spaces.\<close>

fun spaced :: "string list \<Rightarrow> string" where
  "spaced [] = []"
| "spaced [x] = x"
| "spaced (x # y # ys) = x @ '' '' @ spaced (y # ys)"

definition fmt_Println :: "string list \<Rightarrow> world \<Rightarrow> world" where
  "fmt_Println xs w = emit (Stdout (spaced xs)) w"

definition fmt_Printf :: "string \<Rightarrow> world \<Rightarrow> world" where
  "fmt_Printf s w = emit (Stdout s) w"

definition log_Println :: "string list \<Rightarrow> world \<Rightarrow> world" where
  "log_Println xs w = emit (LogLine (spaced xs)) w"

definition log_Fatalf :: "string \<Rightarrow> world \<Rightarrow> 'a res" where
  "log_Fatalf s w = Exit 1 (emit (LogLine s) w)"

subsection \<open>Operating system calls\<close>

definition os_Stat :: "string \<Rightarrow> world \<Rightarrow> (FileInfo option \<times> error option) \<times> world" where
  "os_Stat name w =
     (case fs w name of
        Inl e \<Rightarrow> ((None, Some (PathError ''stat'' name e)), emit (SysStat name) w)
      | Inr n \<Rightarrow> ((Some (FileInfo (n = Dir)), None), emit (SysStat name) w))"

definition os_MkdirAll :: "env \<Rightarrow> string \<Rightarrow> world \<Rightarrow> error option \<times> world" where
  "os_MkdirAll env path w =
     (let w1 = emit (SysMkdirAll path) w in
      case fault env SysMkdirAllCall path of
        Some e \<Rightarrow> (Some (PathError ''mkdir'' path e), w1)
      | None \<Rightarrow>
          (case fs w1 path of
             Inr Dir \<Rightarrow> (None, w1)
           | Inr (File c a m) \<Rightarrow> (Some (PathError ''mkdir'' path ENOTDIR), w1)
           | Inl e \<Rightarrow>
               if e = ENOENT then (None, w1\<lparr>fs := (fs w1)(path := Inr Dir)\<rparr>)
               else (Some (PathError ''mkdir'' path e), w1)))"

definition ioutil_ReadFile :: "env \<Rightarrow> string \<Rightarrow> world \<Rightarrow> (error + string) \<times> world" where
  "ioutil_ReadFile env name w =
     (let w1 = emit (SysReadFile name) w in
      case fault env SysReadCall name of
        Some e \<Rightarrow> (Inl (PathError ''open'' name e), w1)
      | None \<Rightarrow>
          (case fs w1 name of
             Inr Dir \<Rightarrow> (Inl (PathError ''read'' name EISDIR), w1)
           | Inr (File c a m) \<Rightarrow> (Inr c, w1)
           | Inl e \<Rightarrow> (Inl (PathError ''open'' name e), w1)))"

text \<open>
  Opening with \<open>O_RDWR|O_CREATE|O_TRUNC\<close>: a directory cannot be opened for writing, a file
  is emptied, a missing file is created. The handle is the name of the file.
\<close>

definition open_trunc :: "env \<Rightarrow> string \<Rightarrow> world \<Rightarrow> (error + string) \<times> world" where
  "open_trunc env name w =
     (case fault env SysCreateCall name of
        Some e \<Rightarrow> (Inl (PathError ''open'' name e), w)
      | None \<Rightarrow>
          (case fs w name of
             Inr Dir \<Rightarrow> (Inl (PathError ''open'' name EISDIR), w)
           | Inr (File c a m) \<Rightarrow> (Inr name, w\<lparr>fs := (fs w)(name := Inr (File [] a (now env)))\<rparr>)
           | Inl e \<Rightarrow>
               if e = ENOENT then (Inr name, w\<lparr>fs := (fs w)(name := Inr (File [] (now env) (now env)))\<rparr>)
               else (Inl (PathError ''open'' name e), w)))"

definition os_OpenFile :: "env \<Rightarrow> string \<Rightarrow> world \<Rightarrow> (error + string) \<times> world" where
  "os_OpenFile env name w = open_trunc env name (emit (SysOpenFile name) w)"

definition os_Create :: "env \<Rightarrow> string \<Rightarrow> world \<Rightarrow> (error + string) \<times> world" where
  "os_Create env name w = open_trunc env name (emit (SysCreate name) w)"

text \<open>
  Writing to an open file appends as many bytes as the device takes
  (\<open>write_limit\<close> bounds the size of the file) and reports the count and, on a short write,
  the error.
\<close>

definition file_Write :: "env \<Rightarrow> string \<Rightarrow> string \<Rightarrow> world \<Rightarrow> (nat \<times> error option) \<times> world" where
  "file_Write env name bytes w =
     (case fs w name of
        Inr (File c a m) \<Rightarrow>
          (let room = (case write_limit env name of None \<Rightarrow> length bytes
                       | Some lim \<Rightarrow> min (length bytes) (lim - length c));
               w1 = emit (SysWrite name (take room bytes)) w;
               w2 = w1\<lparr>fs := (fs w1)(name := Inr (File (c @ take room bytes) a (now env)))\<rparr>
           in ((room, if room < length bytes then Some (PathError ''write'' name ENOSPC) else None), w2))
      | Inr Dir \<Rightarrow> ((0, Some (PathError ''write'' name EISDIR)), w)
      | Inl e \<Rightarrow> ((0, Some (PathError ''write'' name e)), w))"

text \<open>
  \<open>io.Copy(dst, src)\<close> writes what the source delivers; it returns the number of bytes
  written and the first error met, a write error or the read error that ended the source.
\<close>

fun io_Copy :: "env \<Rightarrow> string \<Rightarrow> Body \<Rightarrow> world \<Rightarrow> (nat \<times> error option) \<times> world" where
  "io_Copy env dst (Body bytes ending) w =
     (case file_Write env dst bytes w of
        ((n, Some werr), w1) \<Rightarrow> ((n, Some werr), w1)
      | ((n, None), w1) \<Rightarrow> ((n, ending), w1))"

definition os_Chtimes :: "env \<Rightarrow> string \<Rightarrow> time \<Rightarrow> time \<Rightarrow> world \<Rightarrow> error option \<times> world" where
  "os_Chtimes env name atime mtime w =
     (let w1 = emit (SysChtimes name atime mtime) w in
      case fault env SysChtimesCall name of
        Some e \<Rightarrow> (Some (PathError ''chtimes'' name e), w1)
      | None \<Rightarrow>
          (case fs w1 name of
             Inr Dir \<Rightarrow> (None, w1)
           | Inr (File c a m) \<Rightarrow> (None, w1\<lparr>fs := (fs w1)(name := Inr (File c atime mtime))\<rparr>)
           | Inl e \<Rightarrow> (Some (PathError ''chtimes'' name e), w1)))"

section \<open>The program (main.go)\<close>

subsection \<open>Token handling and the authorized client (lines 49-102)\<close>

definition tokenFromFile :: "env \<Rightarrow> string \<Rightarrow> world \<Rightarrow> (error + string) \<times> world" where
  "tokenFromFile env file w =
     (let w1 = emit (SysOpen file) w in
      case fault env SysOpenCall file of
        Some e \<Rightarrow> (Inl (PathError ''open'' file e), w1)
      | None \<Rightarrow>
          (case fs w1 file of
             Inl e \<Rightarrow> (Inl (PathError ''open'' file e), w1)
           | Inr Dir \<Rightarrow> (Inl (PathError ''read'' file EISDIR), w1)
           | Inr (File c a m) \<Rightarrow> (decode_token env c, w1)))"

definition saveToken :: "env \<Rightarrow> string \<Rightarrow> string \<Rightarrow> world \<Rightarrow> unit res" where
  "saveToken env path token w =
     (let w1 = fmt_Printf (''Saving credential file to: '' @ path) w in
      case os_OpenFile env path w1 of
        (Inl err, w2) \<Rightarrow> log_Fatalf (''Unable to cache oauth token: '' @ Error err) w2
      | (Inr f, w2) \<Rightarrow> Ret () (snd (file_Write env f (encode_token env token) w2)))"

definition getTokenFromWeb :: "env \<Rightarrow> string \<Rightarrow> world \<Rightarrow> string res" where
  "getTokenFromWeb env config w =
     (let authURL = AuthCodeURL env config;
          w1 = fmt_Printf (''Go to the following link in your browser then type the authorization code: '' @ authURL) w;
          w2 = emit StdinScan w1
      in case Scan env of
           Inl err \<Rightarrow> log_Fatalf (''Unable to read authorization code '' @ Error err) w2
         | Inr authCode \<Rightarrow>
             (let w3 = emit (OAuthExchange authCode) w2 in
              case Exchange env config authCode of
                Inl err \<Rightarrow> log_Fatalf (''Unable to retrieve token from web '' @ Error err) w3
              | Inr tok \<Rightarrow> Ret tok w3))"

text \<open>The client that \<open>getClient\<close> returns is represented by the token it carries.\<close>

definition getClient :: "env \<Rightarrow> string \<Rightarrow> world \<Rightarrow> string res" where
  "getClient env config w =
     (let tokFile = ''token.json'' in
      case tokenFromFile env tokFile w of
        (Inr tok, w1) \<Rightarrow> Ret tok w1
      | (Inl err, w1) \<Rightarrow>
          bind (getTokenFromWeb env config w1) (\<lambda>tok w2.
          bind (saveToken env tokFile tok w2) (\<lambda>u w3. Ret tok w3)))"

subsection \<open>The existence check (lines 221-227)\<close>

text \<open>
  \<open>os.Stat\<close> returns a \<open>nil\<close> \<open>FileInfo\<close> with every error. \<open>fileExists\<close> returns early only
  for a not-exist error; after any other error \<open>info.IsDir()\<close> is called on \<open>nil\<close>, which
  panics.
\<close>

definition fileExists :: "string \<Rightarrow> world \<Rightarrow> bool res" where
  "fileExists filename w =
     (case os_Stat filename w of
        ((info, err), w1) \<Rightarrow>
          if os_IsNotExist err then Ret False w1
          else (case info of
                  None \<Rightarrow> Panic ''invalid memory address or nil pointer dereference'' w1
                | Some i \<Rightarrow> Ret (\<not> IsDir i) w1))"

subsection \<open>The loop over the listed files (lines 168-218)\<close>

definition RFC3339Nano :: string where
  "RFC3339Nano = ''2006-01-02T15:04:05.999999999Z07:00''"

text \<open>
  The timestamp step (lines 207-215): the world after parsing the modification time and, when
  it parses, calling \<open>os.Chtimes\<close> with the parsed instant as access and modification time.
\<close>

definition set_mtime :: "env \<Rightarrow> string \<Rightarrow> drive_File \<Rightarrow> world \<Rightarrow> world" where
  "set_mtime env outName f w =
     (case time_Parse env RFC3339Nano (ModifiedTime f) of
        Inl err \<Rightarrow> log_Println [''>> WARN: Failed to parse modified time''] w
      | Inr t \<Rightarrow>
          (case os_Chtimes env outName t t w of
             (Some err, w1) \<Rightarrow> log_Println [''>> WARN: Failed to change creation time''] w1
           | (None, w1) \<Rightarrow> w1))"

text \<open>
  One iteration of the loop. A \<open>continue\<close> is a normal return of the iteration. The result
  of \<open>io.Copy\<close> is dropped, as in the source; closing the response body and the file changes
  nothing in this model.
\<close>

definition sync_entry :: "env \<Rightarrow> string \<Rightarrow> drive_File \<Rightarrow> world \<Rightarrow> unit res" where
  "sync_entry env targetDir f w =
     (let w1 = log_Println [''Found file'', Name f, FileId f, CreatedTime f] w;
          outName = targetDir @ ''/'' @ cleanFilename (Name f);
          w2 = log_Println [''>> Outfile name is'', outName] w1
      in bind (fileExists outName w2) (\<lambda>exists w3.
           if exists then Ret () (log_Println [''>> File already exists'', outName] w3)
           else
             (let w4 = log_Println [''>> Downloading to'', outName] w3;
                  w5 = emit (DriveDownload (FileId f)) w4
              in case Files_Get_Download env (FileId f) of
                   Inl err \<Rightarrow> Ret () (log_Println [''>> Failed to download''] w5)
                 | Inr body \<Rightarrow>
                     (let w6 = log_Println [''>> Download response OK''] w5 in
                      case os_Create env outName w6 of
                        (Inl err, w7) \<Rightarrow>
                          Ret () (log_Println [''>> Failed to create filename'', Error err, outName] w7)
                      | (Inr out, w7) \<Rightarrow>
                          (let w8 = snd (io_Copy env out body w7);
                               w9 = log_Println [''mtime'', ModifiedTime f] w8;
                               w10 = set_mtime env outName f w9
                           in Ret () (log_Println [''>> Storing as file OK''] w10))))))"

fun sync_loop :: "env \<Rightarrow> string \<Rightarrow> drive_File list \<Rightarrow> world \<Rightarrow> unit res" where
  "sync_loop env targetDir [] w = Ret () w"
| "sync_loop env targetDir (f # files) w =
     bind (sync_entry env targetDir f w) (\<lambda>u w1. sync_loop env targetDir files w1)"

subsection \<open>The main function (lines 104-219)\<close>

text \<open>Lines 116-135: the target directory, the client secret, the client and the service.\<close>

definition main_setup :: "env \<Rightarrow> string \<Rightarrow> string \<Rightarrow> world \<Rightarrow> string res" where
  "main_setup env targetDir credFile w =
     (case os_MkdirAll env targetDir w of
        (Some err, w1) \<Rightarrow> log_Fatalf (''Unable to create target dir: '' @ Error err) w1
      | (None, w1) \<Rightarrow>
          (case ioutil_ReadFile env credFile w1 of
             (Inl err, w2) \<Rightarrow> log_Fatalf (''Unable to read client secret file: '' @ Error err) w2
           | (Inr b, w2) \<Rightarrow>
               (case ConfigFromJSON env b of
                  Inl err \<Rightarrow> log_Fatalf (''Unable to parse client secret file to config: '' @ Error err) w2
                | Inr config \<Rightarrow>
                    bind (getClient env config w2) (\<lambda>client w3.
                      case drive_New env of
                        Some err \<Rightarrow> log_Fatalf (''Unable to retrieve Drive client: '' @ Error err) w3
                      | None \<Rightarrow> Ret client w3))))"

definition folders_call :: "string \<Rightarrow> list_call" where
  "folders_call srcDir =
     \<lparr>Q = ''mimeType = '' @ [CHR 39] @ ''application/vnd.google-apps.folder'' @ [CHR 39]
            @ '' and name = '' @ [CHR 39] @ srcDir @ [CHR 39],
      PageSize = 1, OrderBy = None, Fields = ''files(id, name)'', PageToken = None\<rparr>"

definition children_call :: "string \<Rightarrow> list_call" where
  "children_call folderId =
     \<lparr>Q = [CHR 39] @ folderId @ [CHR 39] @ '' in parents'',
      PageSize = 25, OrderBy = Some ''createdTime desc'',
      Fields = ''files(id, name, modifiedTime)'', PageToken = None\<rparr>"

text \<open>Lines 137-218: folder resolution, the listing and the loop.\<close>

definition main_sync :: "env \<Rightarrow> string \<Rightarrow> string \<Rightarrow> world \<Rightarrow> unit res" where
  "main_sync env srcDir targetDir w =
     (let w1 = emit (DriveList (folders_call srcDir)) w in
      case Files_List env (folders_call srcDir) of
        Inl err \<Rightarrow> log_Fatalf (''Unable to retrieve folders: '' @ Error err) w1
      | Inr folders \<Rightarrow>
          (case folders of
             [] \<Rightarrow> log_Fatalf ''No folders found.'' w1
           | folder # others \<Rightarrow>
               (let w2 = log_Println [''Found folder'', Name folder, FileId folder] w1;
                    w3 = emit (DriveList (children_call (FileId folder))) w2
                in case Files_List env (children_call (FileId folder)) of
                     Inl err \<Rightarrow> log_Fatalf (''Unable to retrieve files: '' @ Error err) w3
                   | Inr files \<Rightarrow>
                       if length files = 0 then log_Fatalf ''No files found.'' w3
                       else sync_loop env targetDir files w3)))"

text \<open>
  \<open>os.Args\<close> is the program name followed by the positional arguments. With no element at
  all, \<open>os.Args[0]\<close> in the usage line is out of range and panics.
\<close>

definition main :: "env \<Rightarrow> string list \<Rightarrow> world \<Rightarrow> unit res" where
  "main env Args w =
     (if length Args \<noteq> 4 then
        (case Args of
           [] \<Rightarrow> Panic ''index out of range'' w
         | prog # rest \<Rightarrow>
             Ret () (fmt_Println [''Usage:'', prog, ''SRC_DIR'', ''TARGET_DIR'', ''CRED_FILE''] w))
      else
        (let srcDir = Args ! 1; targetDir = Args ! 2; credFile = Args ! 3;
             w1 = log_Println [''Arguments:'', srcDir, targetDir, credFile] w
         in bind (main_setup env targetDir credFile w1) (\<lambda>srv w2.
              main_sync env srcDir targetDir w2)))"

subsection \<open>Observations on a trace\<close>

fun is_download :: "event \<Rightarrow> bool" where
  "is_download (DriveDownload i) = True"
| "is_download e = False"

text \<open>The calls to the Drive service: listings and downloads.\<close>

fun is_drive :: "event \<Rightarrow> bool" where
  "is_drive (DriveList c) = True"
| "is_drive (DriveDownload i) = True"
| "is_drive e = False"

text \<open>Every call that reaches the network or the filesystem; only printing and logging do not.\<close>

fun is_action :: "event \<Rightarrow> bool" where
  "is_action (Stdout s) = False"
| "is_action (LogLine s) = False"
| "is_action e = True"

text \<open>The calls that only the processing of a listed file makes.\<close>

fun is_entry_event :: "event \<Rightarrow> bool" where
  "is_entry_event (SysStat p) = True"
| "is_entry_event (SysCreate p) = True"
| "is_entry_event (SysChtimes p a m) = True"
| "is_entry_event (DriveDownload i) = True"
| "is_entry_event e = False"

text \<open>The events a call added to the trace of the world it started from.\<close>

definition new_events :: "world \<Rightarrow> world \<Rightarrow> event list" where
  "new_events w w' = drop (length (trace w)) (trace w')"

definition drive_calls :: "world \<Rightarrow> world \<Rightarrow> event list" where
  "drive_calls w w' = filter is_drive (new_events w w')"

subsection \<open>A concrete run\<close>

text \<open>
  A small world for evaluating the program: the folder \<open>src\<close> holds one file, the client
  secret and a saved token are on disk, and nothing fails.
\<close>

definition demo_file :: drive_File where
  "demo_file = \<lparr>FileId = ''f1'', Name = ''B (1).dat'', CreatedTime = '''',
                 ModifiedTime = ''2023-05-01T12:00:00.000Z''\<rparr>"

definition demo_folder :: drive_File where
  "demo_folder = \<lparr>FileId = ''d1'', Name = ''src'', CreatedTime = '''', ModifiedTime = ''''\<rparr>"

definition demo_parse :: "string \<Rightarrow> string \<Rightarrow> error + time" where
  "demo_parse layout v =
     (if layout = RFC3339Nano \<and> v = ''2023-05-01T12:00:00.000Z'' then Inr 1682942400000000000
      else Inl (ErrorString ''parsing time: cannot parse''))"

definition demo_list :: "list_call \<Rightarrow> error + drive_File list" where
  "demo_list c =
     (if c = folders_call ''src'' then Inr [demo_folder]
      else if c = children_call ''d1'' then Inr [demo_file]
      else Inr [])"

definition demo_env :: env where
  "demo_env =
     \<lparr>fault = (\<lambda>c p. None), write_limit = (\<lambda>p. None), now = 1700000000000000000,
      ConfigFromJSON = (\<lambda>b. Inr b), AuthCodeURL = (\<lambda>c. ''https://accounts.example/auth''),
      decode_token = (\<lambda>s. Inr s), encode_token = (\<lambda>t. t), Scan = Inr ''code'',
      Exchange = (\<lambda>c a. Inr ''tok''), drive_New = None, Files_List = demo_list,
      Files_Get_Download = (\<lambda>i. if i = ''f1'' then Inr (Body ''hello'' None) else Inl (ErrorString ''404'')),
      time_Parse = demo_parse\<rparr>"

definition demo_fs :: "string \<Rightarrow> errno + node" where
  "demo_fs p =
     (if p = ''cred.json'' then Inr (File ''{}'' 0 0)
      else if p = ''token.json'' then Inr (File ''tok'' 0 0)
      else Inl ENOENT)"

definition demo_world :: world where
  "demo_world = \<lparr>fs = demo_fs, trace = []\<rparr>"

definition demo_args :: "string list" where
  "demo_args = [''sync'', ''src'', ''out'', ''cred.json'']"

section \<open>Properties of the sanitization\<close>

lemma ReplaceAllString_keep_run:
  "\<forall>x\<in>set r. allowed x \<Longrightarrow> ReplaceAllString (r @ s) repl = r @ ReplaceAllString s repl"
  by (induction r) auto

lemma runs_concat: "concat (runs s) = s"
  by (induction s rule: runs.induct) auto

lemma runs_homogeneous: "r \<in> set (runs s) \<Longrightarrow> r \<noteq> [] \<and> (\<forall>c\<in>set r. allowed c = allowed (hd r))"
proof (induction s rule: runs.induct)
  case 1
  then show ?case by simp
next
  case (2 c cs)
  let ?P = "\<lambda>x. allowed x = allowed c"
  from "2.prems" have "r = c # takeWhile ?P cs \<or> r \<in> set (runs (dropWhile ?P cs))"
    by simp
  then show ?case
  proof
    assume r: "r = c # takeWhile ?P cs"
    have same: "allowed x = allowed c" if "x \<in> set r" for x
    proof -
      from that r have "x = c \<or> x \<in> set (takeWhile ?P cs)" by simp
      then show ?thesis
      proof
        assume "x = c"
        then show ?thesis by (rule arg_cong)
      next
        assume "x \<in> set (takeWhile ?P cs)"
        then have "x \<in> set cs \<and> ?P x" by (rule set_takeWhileD)
        then show ?thesis by (rule conjunct2)
      qed
    qed
    from r have ne: "r \<noteq> []" and hd: "hd r = c" by simp_all
    show ?thesis unfolding hd using ne same by blast
  next
    assume "r \<in> set (runs (dropWhile ?P cs))"
    then show ?thesis by (rule "2.IH")
  qed
qed

lemma runs_hd_hd: "runs s \<noteq> [] \<Longrightarrow> hd (hd (runs s)) = hd s"
  by (cases s) auto

lemma runs_alternate:
  "Suc i < length (runs s) \<Longrightarrow> allowed (hd (runs s ! i)) \<noteq> allowed (hd (runs s ! Suc i))"
proof (induction s arbitrary: i rule: runs.induct)
  case 1
  then show ?case by simp
next
  case (2 c cs)
  let ?rest = "dropWhile (\<lambda>x. allowed x = allowed c) cs"
  show ?case
  proof (cases i)
    case 0
    with "2.prems" have ne: "runs ?rest \<noteq> []" by auto
    then have "?rest \<noteq> []" by (metis runs.simps(1))
    then have "allowed (hd ?rest) \<noteq> allowed c"
      using hd_dropWhile [of "\<lambda>x. allowed x = allowed c" cs] by simp
    moreover have "hd (runs ?rest ! 0) = hd ?rest"
      using runs_hd_hd [OF ne] ne by (simp add: hd_conv_nth)
    ultimately show ?thesis using 0 by simp
  next
    case (Suc j)
    with "2.prems" have "Suc j < length (runs ?rest)" by simp
    from "2.IH" [OF this] show ?thesis using Suc by simp
  qed
qed

lemma cleanFilename_runs: "ReplaceAllString s ''_'' = concat (map collapse (runs s))"
proof (induction s rule: runs.induct)
  case 1
  then show ?case by simp
next
  case (2 c cs)
  let ?P = "\<lambda>x. allowed x = allowed c"
  have split: "cs = takeWhile ?P cs @ dropWhile ?P cs" by simp
  show ?case
  proof (cases "allowed c")
    case True
    then have all: "\<forall>x\<in>set (c # takeWhile ?P cs). allowed x"
      by (auto dest: set_takeWhileD)
    have "ReplaceAllString (c # cs) ''_'' = ReplaceAllString ((c # takeWhile ?P cs) @ dropWhile ?P cs) ''_''"
      by simp
    also have "\<dots> = (c # takeWhile ?P cs) @ ReplaceAllString (dropWhile ?P cs) ''_''"
      using all by (rule ReplaceAllString_keep_run)
    finally show ?thesis using True "2.IH" by (simp add: collapse_def)
  next
    case False
    then have eq: "?P = (\<lambda>x. \<not> allowed x)" by auto
    from False have "ReplaceAllString (c # cs) ''_'' = ''_'' @ ReplaceAllString (dropWhile (\<lambda>x. \<not> allowed x) cs) ''_''"
      by simp
    then show ?thesis using False "2.IH" by (simp add: collapse_def eq)
  qed
qed

lemma ReplaceAllString_allowed:
  "\<forall>x\<in>set repl. allowed x \<Longrightarrow> c \<in> set (ReplaceAllString s repl) \<Longrightarrow> allowed c"
proof (induction s repl rule: ReplaceAllString.induct)
  case (1 repl)
  then show ?case by simp
next
  case (2 d ds repl)
  show ?case
  proof (cases "allowed d")
    case True
    with 2 show ?thesis by auto
  next
    case False
    with 2 show ?thesis by auto
  qed
qed

lemma allowed_underscore: "allowed (CHR ''_'')"
  by (simp add: allowed_def)

lemma cleanFilename_allowed: "c \<in> set (cleanFilename s) \<Longrightarrow> allowed c"
  unfolding cleanFilename_def by (rule ReplaceAllString_allowed [of "''_''"]) (simp_all add: allowed_underscore)

lemma cleanFilename_fixes_allowed: "\<forall>c\<in>set s. allowed c \<Longrightarrow> cleanFilename s = s"
  unfolding cleanFilename_def by (induction s) auto

text \<open>
  Claim C2. For every input string the sanitization is the specification's: the input is cut
  into its maximal runs of characters inside or outside the class \<open>[A-Za-z0-9._-]\<close> (the
  runs concatenate to the input, each is non-empty and of one kind, and neighbouring runs are
  of different kinds), every run of characters outside the class becomes one underscore and
  every other run is kept, so that no character outside the class is left. The function is
  total and deterministic: it is a terminating function of its input alone.
\<close>

theorem cleanFilename_collapses_runs:
  "cleanFilename s = sanitize_spec s
   \<and> concat (runs s) = s
   \<and> (\<forall>r\<in>set (runs s). r \<noteq> [] \<and> (\<forall>c\<in>set r. allowed c = allowed (hd r)))
   \<and> (\<forall>i. Suc i < length (runs s) \<longrightarrow> allowed (hd (runs s ! i)) \<noteq> allowed (hd (runs s ! Suc i)))
   \<and> (\<forall>c\<in>set (cleanFilename s). allowed c)"
proof -
  have a: "cleanFilename s = sanitize_spec s"
    by (simp only: cleanFilename_def sanitize_spec_def cleanFilename_runs)
  have b: "concat (runs s) = s"
    by (rule runs_concat)
  have c: "\<forall>r\<in>set (runs s). r \<noteq> [] \<and> (\<forall>c\<in>set r. allowed c = allowed (hd r))"
    by (rule ballI) (rule runs_homogeneous)
  have d: "\<forall>i. Suc i < length (runs s) \<longrightarrow> allowed (hd (runs s ! i)) \<noteq> allowed (hd (runs s ! Suc i))"
    by (intro allI impI) (rule runs_alternate)
  have e: "\<forall>c\<in>set (cleanFilename s). allowed c"
    by (rule ballI) (rule cleanFilename_allowed)
  show ?thesis
    by (rule conjI [OF a conjI [OF b conjI [OF c conjI [OF d e]]]])
qed

theorem cleanFilename_collapses_runs_witness:
  "cleanFilename ''B (1).dat'' = ''B_1_.dat''
   \<and> runs ''B (1).dat'' = [''B'', '' ('', ''1'', '')'', ''.dat'']
   \<and> sanitize_spec ''B (1).dat'' = ''B_1_.dat''"
  using cleanFilename_collapses_runs [of "''B (1).dat''"]
  by (simp add: sanitize_spec_def collapse_def allowed_def)

text \<open>
  Claim C3. The sanitization is idempotent: sanitizing a sanitized name changes nothing.
\<close>

theorem cleanFilename_idempotent: "cleanFilename (cleanFilename x) = cleanFilename x"
  by (rule cleanFilename_fixes_allowed) (simp add: cleanFilename_allowed)


section \<open>Properties of the program\<close>

lemmas os_defs = os_Stat_def os_MkdirAll_def ioutil_ReadFile_def open_trunc_def os_OpenFile_def
  os_Create_def file_Write_def os_Chtimes_def
lemmas out_defs = emit_def fmt_Println_def fmt_Printf_def log_Println_def log_Fatalf_def
lemmas demo_defs = demo_env_def demo_world_def demo_args_def demo_fs_def demo_list_def demo_parse_def
  demo_file_def demo_folder_def RFC3339Nano_def folders_call_def children_call_def

lemma new_events_append [simp]: "trace w' = trace w @ evs \<Longrightarrow> new_events w w' = evs"
  by (simp add: new_events_def)

lemma fileExists_file:
  "fs w p = Inr (File c a m) \<Longrightarrow> fileExists p w = Ret True (emit (SysStat p) w)"
  by (simp add: fileExists_def os_Stat_def)

lemma fileExists_dir:
  "fs w p = Inr Dir \<Longrightarrow> fileExists p w = Ret False (emit (SysStat p) w)"
  by (simp add: fileExists_def os_Stat_def)

lemma fileExists_absent:
  "fs w p = Inl ENOENT \<Longrightarrow> fileExists p w = Ret False (emit (SysStat p) w)"
  by (simp add: fileExists_def os_Stat_def)

lemma fileExists_fault:
  "fs w p = Inl e \<Longrightarrow> e \<noteq> ENOENT \<Longrightarrow>
     fileExists p w = Panic ''invalid memory address or nil pointer dereference'' (emit (SysStat p) w)"
  by (simp add: fileExists_def os_Stat_def)

lemma fs_emit [simp]: "fs (emit e w) = fs w"
  by (simp add: emit_def)

lemma trace_emit [simp]: "trace (emit e w) = trace w @ [e]"
  by (simp add: emit_def)

lemma fs_log_Println [simp]: "fs (log_Println xs w) = fs w"
  by (simp add: log_Println_def)

lemma trace_log_Println [simp]: "trace (log_Println xs w) = trace w @ [LogLine (spaced xs)]"
  by (simp add: log_Println_def)

text \<open>
  Claim C9. \<open>fileExists\<close> returns a boolean exactly when \<open>os.Stat\<close> succeeds or fails with
  a not-exist error: false for a missing path, and for an existing one whether it is not a
  directory. After any other \<open>Stat\<close> error the \<open>FileInfo\<close> is \<open>nil\<close> and the call panics
  instead of returning.
\<close>

theorem fileExists_total_iff:
  "(fs w p = Inl ENOENT \<longrightarrow> fileExists p w = Ret False (emit (SysStat p) w))
   \<and> (\<forall>n. fs w p = Inr n \<longrightarrow> fileExists p w = Ret (n \<noteq> Dir) (emit (SysStat p) w))
   \<and> (\<forall>e. fs w p = Inl e \<and> e \<noteq> ENOENT \<longrightarrow>
         fst (os_Stat p w) = (None, Some (PathError ''stat'' p e))
         \<and> fileExists p w = Panic ''invalid memory address or nil pointer dereference'' (emit (SysStat p) w))
   \<and> ((\<exists>b w'. fileExists p w = Ret b w') \<longleftrightarrow> (fs w p = Inl ENOENT \<or> (\<exists>n. fs w p = Inr n)))"
proof -
  have a: "fs w p = Inl ENOENT \<longrightarrow> fileExists p w = Ret False (emit (SysStat p) w)"
    by (simp add: fileExists_absent)
  have b: "\<forall>n. fs w p = Inr n \<longrightarrow> fileExists p w = Ret (n \<noteq> Dir) (emit (SysStat p) w)"
    by (simp add: fileExists_def os_Stat_def)
  have c: "\<forall>e. fs w p = Inl e \<and> e \<noteq> ENOENT \<longrightarrow>
         fst (os_Stat p w) = (None, Some (PathError ''stat'' p e))
         \<and> fileExists p w = Panic ''invalid memory address or nil pointer dereference'' (emit (SysStat p) w)"
    by (simp add: fileExists_fault os_Stat_def)
  have d: "(\<exists>b w'. fileExists p w = Ret b w') \<longleftrightarrow> (fs w p = Inl ENOENT \<or> (\<exists>n. fs w p = Inr n))"
  proof (cases "fs w p")
    case (Inl e)
    then show ?thesis by (cases "e = ENOENT") (auto simp: fileExists_absent fileExists_fault)
  next
    case (Inr n)
    then show ?thesis using b by auto
  qed
  show ?thesis by (rule conjI [OF a conjI [OF b conjI [OF c d]]])
qed

theorem fileExists_total_iff_witness:
  "fileExists ''cred.json'' demo_world = Ret True (emit (SysStat ''cred.json'') demo_world)
   \<and> fileExists ''none'' demo_world = Ret False (emit (SysStat ''none'') demo_world)
   \<and> fileExists ''locked'' (demo_world\<lparr>fs := (fs demo_world)(''locked'' := Inl EACCES)\<rparr>) =
       Panic ''invalid memory address or nil pointer dereference''
         (emit (SysStat ''locked'') (demo_world\<lparr>fs := (fs demo_world)(''locked'' := Inl EACCES)\<rparr>))"
  using fileExists_total_iff [of demo_world "''cred.json''"]
    fileExists_total_iff [of demo_world "''none''"]
    fileExists_total_iff [of "demo_world\<lparr>fs := (fs demo_world)(''locked'' := Inl EACCES)\<rparr>" "''locked''"]
  by (simp add: demo_world_def demo_fs_def)

text \<open>
  Claim C8. Invoked with any number of positional arguments other than three, the program
  prints the usage line and returns, so it exits with status 0; it changes no file and makes
  no call to the filesystem or the network.
\<close>

theorem main_usage:
  "length positional \<noteq> 3 \<Longrightarrow>
     main env (prog # positional) w =
       Ret () (emit (Stdout (''Usage: '' @ prog @ '' SRC_DIR TARGET_DIR CRED_FILE'')) w)
     \<and> exit_status (main env (prog # positional) w) = 0
     \<and> fs (world_of (main env (prog # positional) w)) = fs w
     \<and> filter is_action (new_events w (world_of (main env (prog # positional) w))) = []"
  by (simp add: main_def fmt_Println_def)

theorem main_usage_witness:
  "length [''src'', ''out''] \<noteq> 3
   \<and> main demo_env [''sync'', ''src'', ''out''] demo_world =
       Ret () (emit (Stdout ''Usage: sync SRC_DIR TARGET_DIR CRED_FILE'') demo_world)
   \<and> exit_status (main demo_env [''sync'', ''src'', ''out''] demo_world) = 0"
  using main_usage [of "[''src'', ''out'']" demo_env "''sync''" demo_world]
  by simp

end
